theory Spec2Isabelle
  imports Main
begin

section \<open>The entity HTTP client of \<^verbatim>\<open>src/api.js\<close>\<close>

text \<open>
  The module exports thirteen asynchronous functions. Each one builds a request, awaits
  \<^verbatim>\<open>fetch\<close>, tests \<^verbatim>\<open>response.ok\<close>, throws \<^verbatim>\<open>new Error(...)\<close> when it is false and returns
  \<^verbatim>\<open>response.json()\<close> otherwise. The functions are embedded one by one, as they are written.
  What they call but do not define (template-literal string conversion, \<^verbatim>\<open>JSON.stringify\<close>,
  \<^verbatim>\<open>fetch\<close>, \<^verbatim>\<open>Response.ok\<close>, \<^verbatim>\<open>Response.json\<close>) is the JavaScript runtime; it is modelled
  in the first two subsections, on the values described there.
\<close>

subsection \<open>JavaScript values and the two conversions the module applies to them\<close>

text \<open>
  The arguments of the functions and the decoded response bodies are JavaScript values.
  The model covers the values that JSON can carry: \<^verbatim>\<open>null\<close>, booleans, integral numbers,
  strings of ASCII characters, arrays, and plain objects given as the list of their own
  properties in enumeration order. No such value is callable. \<^verbatim>\<open>undefined\<close>, fractional
  numbers, functions and symbols are outside the model.
\<close>

datatype jsval =
    JNull
  | JBool bool
  | JNum int
  | JStr string
  | JArr "jsval list"
  | JObj "(string \<times> jsval) list"

text \<open>
  A number is an integer here. JavaScript holds it exactly, and prints it in plain decimal
  digits, when it is a safe integer (\<^verbatim>\<open>Number.isSafeInteger\<close>); from \<^verbatim>\<open>10^21\<close> on it prints an
  exponent form that \<open>show_int\<close> does not model. A statement that names the printed form of
  a number of unknown size therefore assumes the number safe.
\<close>

definition safe_integer :: "int \<Rightarrow> bool" where
  "safe_integer i = (- 9007199254740991 \<le> i \<and> i \<le> 9007199254740991)"

fun show_nat :: "nat \<Rightarrow> string" where
  "show_nat n =
     (if n < 10 then [''0123456789'' ! n]
      else show_nat (n div 10) @ [''0123456789'' ! (n mod 10)])"

declare show_nat.simps [simp del]

definition show_int :: "int \<Rightarrow> string" where
  "show_int i = (if i < 0 then ''-'' @ show_nat (nat (- i)) else show_nat (nat i))"

fun join :: "string \<Rightarrow> string list \<Rightarrow> string" where
  "join sep [] = []"
| "join sep [x] = x"
| "join sep (x # y # ys) = x @ sep @ join sep (y # ys)"

text \<open>
  The exceptions that can leave an exported function: the \<^verbatim>\<open>Error\<close> the module constructs
  itself, and the two the runtime raises. Each carries its message.
\<close>

datatype js_exception = Error string | TypeError string | SyntaxError string

text \<open>
  A list of results evaluated from left to right: the first exception ends it, as a
  \<^verbatim>\<open>throw\<close> does.
\<close>

fun collect :: "('e + 'a) list \<Rightarrow> 'e + 'a list" where
  "collect [] = Inr []"
| "collect (Inl e # rs) = Inl e"
| "collect (Inr x # rs) = (case collect rs of Inl e \<Rightarrow> Inl e | Inr xs \<Rightarrow> Inr (x # xs))"

text \<open>
  \<^verbatim>\<open>${x}\<close> in a template literal is the abstract operation ToString: a string is itself,
  a number its decimal form, an array its elements converted and joined by commas (with
  \<^verbatim>\<open>null\<close> elements empty). A plain object is converted by its \<^verbatim>\<open>toString\<close> property: the one
  it inherits gives \<^verbatim>\<open>[object Object]\<close>; an own property of that name is a value that cannot
  be called, and then the conversion throws a \<^verbatim>\<open>TypeError\<close>, whose message the runtime
  chooses (here the wording of V8).
\<close>

definition conversion_error :: js_exception where
  "conversion_error = TypeError ''Cannot convert object to primitive value''"

fun ToString :: "jsval \<Rightarrow> js_exception + string" where
  "ToString JNull = Inr ''null''"
| "ToString (JBool b) = Inr (if b then ''true'' else ''false'')"
| "ToString (JNum i) = Inr (show_int i)"
| "ToString (JStr s) = Inr s"
| "ToString (JArr xs) =
     (case collect (map (\<lambda>x. if x = JNull then Inr [] else ToString x) xs) of
        Inl e \<Rightarrow> Inl e
      | Inr ss \<Rightarrow> Inr (join '','' ss))"
| "ToString (JObj ps) =
     (if ''toString'' \<in> set (map fst ps) then Inl conversion_error
      else Inr ''[object Object]'')"

text \<open>
  A template literal: its pieces, literal text (\<open>Inr\<close>) and converted values, are evaluated
  from left to right and concatenated.
\<close>

definition template :: "(js_exception + string) list \<Rightarrow> js_exception + string" where
  "template pieces = (case collect pieces of Inl e \<Rightarrow> Inl e | Inr ss \<Rightarrow> Inr (concat ss))"

text \<open>
  \<^verbatim>\<open>JSON.stringify\<close> without a replacer or indentation. A string is quoted; inside it the
  double quote, the backslash and the control characters below 0x20 are escaped. It does
  not throw on these values: an own \<^verbatim>\<open>toJSON\<close> property cannot be called and is ignored.
\<close>

definition hex4 :: "nat \<Rightarrow> string" where
  "hex4 n = [CHR ''0'', CHR ''0'', ''0123456789abcdef'' ! (n div 16), ''0123456789abcdef'' ! (n mod 16)]"

definition escape_char :: "char \<Rightarrow> string" where
  "escape_char c =
     (if c = CHR 0x22 then [CHR 0x5C, CHR 0x22]
      else if c = CHR 0x5C then [CHR 0x5C, CHR 0x5C]
      else if c = CHR 0x08 then [CHR 0x5C, CHR ''b'']
      else if c = CHR 0x0C then [CHR 0x5C, CHR ''f'']
      else if c = CHR 0x0A then [CHR 0x5C, CHR ''n'']
      else if c = CHR 0x0D then [CHR 0x5C, CHR ''r'']
      else if c = CHR 0x09 then [CHR 0x5C, CHR ''t'']
      else if (of_char c :: nat) < 32 then [CHR 0x5C, CHR ''u''] @ hex4 (of_char c)
      else [c])"

definition quote :: "string \<Rightarrow> string" where
  "quote s = [CHR 0x22] @ concat (map escape_char s) @ [CHR 0x22]"

fun JSON_stringify :: "jsval \<Rightarrow> string" where
  "JSON_stringify JNull = ''null''"
| "JSON_stringify (JBool b) = (if b then ''true'' else ''false'')"
| "JSON_stringify (JNum i) = show_int i"
| "JSON_stringify (JStr s) = quote s"
| "JSON_stringify (JArr xs) = ''['' @ join '','' (map JSON_stringify xs) @ '']''"
| "JSON_stringify (JObj ps) =
     ''{'' @ join '','' (map (\<lambda>p. quote (fst p) @ '':'' @ JSON_stringify (snd p)) ps) @ ''}''"

subsection \<open>The network: \<^verbatim>\<open>fetch\<close> and the response object\<close>

text \<open>The \<^verbatim>\<open>method\<close> of a request is its field \<open>http_method\<close> here.\<close>

datatype verb = GET | POST | PUT | DELETE

record request =
  url :: string
  http_method :: verb
  headers :: "(string \<times> string) list"
  body :: "string option"

text \<open>
  The body of a response, delivered whole, either decodes to a JSON value, or is text that
  is not valid JSON (an empty body, an HTML error page); then the string is the message of
  the \<^verbatim>\<open>SyntaxError\<close> that decoding it raises.
\<close>

datatype payload = Json jsval | Malformed string

record response =
  status :: nat
  content :: payload

text \<open>
  \<^verbatim>\<open>fetch\<close> either fails at the network level (connection refused, DNS failure), rejecting
  with a \<^verbatim>\<open>TypeError\<close> whose message the runtime chooses, or delivers a response, whatever
  its status. A backend is what answers a request.
\<close>

datatype fetch_result = NetworkError string | Response response

type_synonym backend = "request \<Rightarrow> fetch_result"

text \<open>
  What a call does to the outside world is recorded in a log: each request handed to
  \<^verbatim>\<open>fetch\<close>, and each reading of a response body.
\<close>

datatype event = Fetch request | ReadBody

text \<open>
  An asynchronous computation takes the log so far and gives the settled promise,
  \<open>Inl\<close> the exception it is rejected with or \<open>Inr\<close> the value it resolves to, and the log
  extended by what it did.
\<close>

type_synonym 'a async = "event list \<Rightarrow> (js_exception + 'a) \<times> event list"

definition await :: "'a async \<Rightarrow> ('a \<Rightarrow> 'b async) \<Rightarrow> 'b async" where
  "await m k tr = (case m tr of (Inl e, tr') \<Rightarrow> (Inl e, tr') | (Inr x, tr') \<Rightarrow> k x tr')"

definition throw :: "js_exception \<Rightarrow> 'a async" where
  "throw e tr = (Inl e, tr)"

text \<open>
  An expression evaluated inside an asynchronous function: when it throws, the promise of
  the function is rejected with the exception and nothing more is done.
\<close>

definition given :: "(js_exception + 'a) \<Rightarrow> ('a \<Rightarrow> 'b async) \<Rightarrow> 'b async" where
  "given x k tr = (case x of Inl e \<Rightarrow> (Inl e, tr) | Inr a \<Rightarrow> k a tr)"

definition fetch :: "backend \<Rightarrow> request \<Rightarrow> response async" where
  "fetch srv req tr =
     (case srv req of
        NetworkError m \<Rightarrow> (Inl (TypeError m), tr @ [Fetch req])
      | Response r \<Rightarrow> (Inr r, tr @ [Fetch req]))"

text \<open>
  \<^verbatim>\<open>fetch(url)\<close> with no second argument is a GET without headers or body. The \<open>url\<close> of a
  request is the string the function hands to \<^verbatim>\<open>fetch\<close>, before the runtime parses it.
\<close>

definition fetch_url :: "backend \<Rightarrow> string \<Rightarrow> response async" where
  "fetch_url srv u = fetch srv \<lparr>url = u, http_method = GET, headers = [], body = None\<rparr>"

text \<open>\<^verbatim>\<open>response.ok\<close>: the status is in the range 200 to 299.\<close>

definition ok :: "response \<Rightarrow> bool" where
  "ok r = (200 \<le> status r \<and> status r \<le> 299)"

text \<open>\<^verbatim>\<open>response.json()\<close> reads the body and decodes it.\<close>

definition json :: "response \<Rightarrow> jsval async" where
  "json r tr =
     (case content r of
        Json v \<Rightarrow> (Inr v, tr @ [ReadBody])
      | Malformed m \<Rightarrow> (Inl (SyntaxError m), tr @ [ReadBody]))"

subsection \<open>The exported functions\<close>

text \<open>
  A URL or message written as a template literal with an argument in it is a \<open>template\<close>,
  evaluated before \<^verbatim>\<open>fetch\<close> is called; \<open>BASE_URL\<close>, a string, is a literal piece of it. A
  URL without an argument in it is written as the plain concatenation it is.
\<close>

definition BASE_URL :: string where
  "BASE_URL = ''http://localhost:8000''"

definition fetchEntityColumns :: "backend \<Rightarrow> jsval \<Rightarrow> jsval async" where
  "fetchEntityColumns srv entity =
     given (template [Inr BASE_URL, Inr ''/'', ToString entity, Inr ''/columns''])
       (\<lambda>u. await (fetch_url srv u)
          (\<lambda>response.
             if \<not> ok response
             then given (template [Inr ''Failed to fetch '', ToString entity, Inr '' columns''])
                    (\<lambda>m. throw (Error m))
             else json response))"

text \<open>The third parameter of \<^verbatim>\<open>searchRecords\<close>, \<^verbatim>\<open>value\<close> in the source, is \<open>val\<close> here.\<close>

definition searchRecords :: "backend \<Rightarrow> jsval \<Rightarrow> jsval \<Rightarrow> jsval \<Rightarrow> jsval async" where
  "searchRecords srv entity column val =
     given (template [Inr BASE_URL, Inr ''/search?entity='', ToString entity,
                      Inr ''&column='', ToString column, Inr ''&value='', ToString val])
       (\<lambda>u. await (fetch_url srv u)
          (\<lambda>response.
             if \<not> ok response then throw (Error ''Failed to search records'')
             else json response))"

definition sortRecords :: "backend \<Rightarrow> jsval \<Rightarrow> jsval \<Rightarrow> jsval \<Rightarrow> jsval async" where
  "sortRecords srv entity column order =
     given (template [Inr BASE_URL, Inr ''/sort?entity='', ToString entity,
                      Inr ''&column='', ToString column, Inr ''&order='', ToString order])
       (\<lambda>u. await (fetch_url srv u)
          (\<lambda>response.
             if \<not> ok response then throw (Error ''Failed to sort records'')
             else json response))"

definition selectAllRecords :: "backend \<Rightarrow> jsval \<Rightarrow> jsval async" where
  "selectAllRecords srv entity =
     given (template [Inr BASE_URL, Inr ''/all?entity='', ToString entity])
       (\<lambda>u. await (fetch_url srv u)
          (\<lambda>response.
             if \<not> ok response then throw (Error ''Failed to fetch all records'')
             else json response))"

paragraph \<open>Student endpoints\<close>

definition insertStudent :: "backend \<Rightarrow> jsval \<Rightarrow> jsval async" where
  "insertStudent srv student =
     await (fetch srv \<lparr>url = BASE_URL @ ''/students'', http_method = POST,
                       headers = [(''Content-Type'', ''application/json'')],
                       body = Some (JSON_stringify student)\<rparr>)
       (\<lambda>response.
          if \<not> ok response then throw (Error ''Failed to insert student'')
          else json response)"

definition deleteStudents :: "backend \<Rightarrow> jsval \<Rightarrow> jsval async" where
  "deleteStudents srv studentIds =
     await (fetch srv \<lparr>url = BASE_URL @ ''/students'', http_method = DELETE,
                       headers = [(''Content-Type'', ''application/json'')],
                       body = Some (JSON_stringify studentIds)\<rparr>)
       (\<lambda>response.
          if \<not> ok response then throw (Error ''Failed to delete students'')
          else json response)"

definition updateStudent :: "backend \<Rightarrow> jsval \<Rightarrow> jsval \<Rightarrow> jsval async" where
  "updateStudent srv studentId student =
     given (template [Inr BASE_URL, Inr ''/students/'', ToString studentId])
       (\<lambda>u. await (fetch srv \<lparr>url = u, http_method = PUT,
                               headers = [(''Content-Type'', ''application/json'')],
                               body = Some (JSON_stringify student)\<rparr>)
          (\<lambda>response.
             if \<not> ok response then throw (Error ''Failed to update student'')
             else json response))"

paragraph \<open>Mentor endpoints\<close>

definition insertMentor :: "backend \<Rightarrow> jsval \<Rightarrow> jsval async" where
  "insertMentor srv mentor =
     await (fetch srv \<lparr>url = BASE_URL @ ''/mentors'', http_method = POST,
                       headers = [(''Content-Type'', ''application/json'')],
                       body = Some (JSON_stringify mentor)\<rparr>)
       (\<lambda>response.
          if \<not> ok response then throw (Error ''Failed to insert mentor'')
          else json response)"

definition updateMentor :: "backend \<Rightarrow> jsval \<Rightarrow> jsval \<Rightarrow> jsval async" where
  "updateMentor srv mentorId mentor =
     given (template [Inr BASE_URL, Inr ''/mentors/'', ToString mentorId])
       (\<lambda>u. await (fetch srv \<lparr>url = u, http_method = PUT,
                               headers = [(''Content-Type'', ''application/json'')],
                               body = Some (JSON_stringify mentor)\<rparr>)
          (\<lambda>response.
             if \<not> ok response then throw (Error ''Failed to update mentor'')
             else json response))"

definition deleteMentors :: "backend \<Rightarrow> jsval \<Rightarrow> jsval async" where
  "deleteMentors srv mentorIds =
     await (fetch srv \<lparr>url = BASE_URL @ ''/mentors'', http_method = DELETE,
                       headers = [(''Content-Type'', ''application/json'')],
                       body = Some (JSON_stringify mentorIds)\<rparr>)
       (\<lambda>response.
          if \<not> ok response then throw (Error ''Failed to delete mentors'')
          else json response)"

paragraph \<open>Project endpoints\<close>

definition insertProject :: "backend \<Rightarrow> jsval \<Rightarrow> jsval async" where
  "insertProject srv project =
     await (fetch srv \<lparr>url = BASE_URL @ ''/projects'', http_method = POST,
                       headers = [(''Content-Type'', ''application/json'')],
                       body = Some (JSON_stringify project)\<rparr>)
       (\<lambda>response.
          if \<not> ok response then throw (Error ''Failed to insert project'')
          else json response)"

definition updateProject :: "backend \<Rightarrow> jsval \<Rightarrow> jsval \<Rightarrow> jsval async" where
  "updateProject srv projectId project =
     given (template [Inr BASE_URL, Inr ''/projects/'', ToString projectId])
       (\<lambda>u. await (fetch srv \<lparr>url = u, http_method = PUT,
                               headers = [(''Content-Type'', ''application/json'')],
                               body = Some (JSON_stringify project)\<rparr>)
          (\<lambda>response.
             if \<not> ok response then throw (Error ''Failed to update project'')
             else json response))"

definition deleteProjects :: "backend \<Rightarrow> jsval \<Rightarrow> jsval async" where
  "deleteProjects srv projectIds =
     await (fetch srv \<lparr>url = BASE_URL @ ''/projects'', http_method = DELETE,
                       headers = [(''Content-Type'', ''application/json'')],
                       body = Some (JSON_stringify projectIds)\<rparr>)
       (\<lambda>response.
          if \<not> ok response then throw (Error ''Failed to delete projects'')
          else json response)"

subsection \<open>The module's interface as one function\<close>

text \<open>
  A call names an exported function and gives its arguments, in the order of the source;
  \<open>invoke\<close> runs it. The claims about "every operation" are stated over \<open>invoke\<close>.
\<close>

datatype call =
    FetchEntityColumns jsval
  | SearchRecords jsval jsval jsval
  | SortRecords jsval jsval jsval
  | SelectAllRecords jsval
  | InsertStudent jsval
  | DeleteStudents jsval
  | UpdateStudent jsval jsval
  | InsertMentor jsval
  | UpdateMentor jsval jsval
  | DeleteMentors jsval
  | InsertProject jsval
  | UpdateProject jsval jsval
  | DeleteProjects jsval

fun invoke :: "backend \<Rightarrow> call \<Rightarrow> jsval async" where
  "invoke srv (FetchEntityColumns entity) = fetchEntityColumns srv entity"
| "invoke srv (SearchRecords entity column val) = searchRecords srv entity column val"
| "invoke srv (SortRecords entity column order) = sortRecords srv entity column order"
| "invoke srv (SelectAllRecords entity) = selectAllRecords srv entity"
| "invoke srv (InsertStudent student) = insertStudent srv student"
| "invoke srv (DeleteStudents studentIds) = deleteStudents srv studentIds"
| "invoke srv (UpdateStudent studentId student) = updateStudent srv studentId student"
| "invoke srv (InsertMentor mentor) = insertMentor srv mentor"
| "invoke srv (UpdateMentor mentorId mentor) = updateMentor srv mentorId mentor"
| "invoke srv (DeleteMentors mentorIds) = deleteMentors srv mentorIds"
| "invoke srv (InsertProject project) = insertProject srv project"
| "invoke srv (UpdateProject projectId project) = updateProject srv projectId project"
| "invoke srv (DeleteProjects projectIds) = deleteProjects srv projectIds"

subsection \<open>Observations on a call\<close>

text \<open>The requests in a log, in the order they were made.\<close>

fun requested :: "event list \<Rightarrow> request list" where
  "requested [] = []"
| "requested (Fetch req # es) = req # requested es"
| "requested (ReadBody # es) = requested es"

text \<open>The requests a call makes when it runs against a backend, starting from an empty log.\<close>

definition issued :: "backend \<Rightarrow> call \<Rightarrow> request list" where
  "issued srv c = requested (snd (invoke srv c []))"

text \<open>
  The body that every exported function repeats after it has built its request: one
  \<^verbatim>\<open>fetch\<close>, the test of \<^verbatim>\<open>response.ok\<close>, the \<^verbatim>\<open>throw\<close>, the \<^verbatim>\<open>return response.json()\<close>.
  It is used to reason about the thirteen functions at once.
\<close>

definition exchange :: "backend \<Rightarrow> request \<Rightarrow> string \<Rightarrow> jsval async" where
  "exchange srv req m =
     await (fetch srv req)
       (\<lambda>response. if \<not> ok response then throw (Error m) else json response)"

text \<open>
  The argument of \<^verbatim>\<open>new Error(...)\<close> in each function, as the source has it. Only
  \<^verbatim>\<open>fetchEntityColumns\<close> builds it from an argument, with a template literal.
\<close>

fun failure_message :: "call \<Rightarrow> js_exception + string" where
  "failure_message (FetchEntityColumns entity) =
     template [Inr ''Failed to fetch '', ToString entity, Inr '' columns'']"
| "failure_message (SearchRecords _ _ _) = Inr ''Failed to search records''"
| "failure_message (SortRecords _ _ _) = Inr ''Failed to sort records''"
| "failure_message (SelectAllRecords _) = Inr ''Failed to fetch all records''"
| "failure_message (InsertStudent _) = Inr ''Failed to insert student''"
| "failure_message (DeleteStudents _) = Inr ''Failed to delete students''"
| "failure_message (UpdateStudent _ _) = Inr ''Failed to update student''"
| "failure_message (InsertMentor _) = Inr ''Failed to insert mentor''"
| "failure_message (UpdateMentor _ _) = Inr ''Failed to update mentor''"
| "failure_message (DeleteMentors _) = Inr ''Failed to delete mentors''"
| "failure_message (InsertProject _) = Inr ''Failed to insert project''"
| "failure_message (UpdateProject _ _) = Inr ''Failed to update project''"
| "failure_message (DeleteProjects _) = Inr ''Failed to delete projects''"

text \<open>
  The arguments a call interpolates into its URL, in the order of the template literal.
\<close>

fun url_arguments :: "call \<Rightarrow> jsval list" where
  "url_arguments (FetchEntityColumns entity) = [entity]"
| "url_arguments (SearchRecords entity column val) = [entity, column, val]"
| "url_arguments (SortRecords entity column order) = [entity, column, order]"
| "url_arguments (SelectAllRecords entity) = [entity]"
| "url_arguments (InsertStudent student) = []"
| "url_arguments (DeleteStudents studentIds) = []"
| "url_arguments (UpdateStudent studentId student) = [studentId]"
| "url_arguments (InsertMentor mentor) = []"
| "url_arguments (UpdateMentor mentorId mentor) = [mentorId]"
| "url_arguments (DeleteMentors mentorIds) = []"
| "url_arguments (InsertProject project) = []"
| "url_arguments (UpdateProject projectId project) = [projectId]"
| "url_arguments (DeleteProjects projectIds) = []"

text \<open>
  The primitive values: \<^verbatim>\<open>null\<close>, a boolean, a safe integer, a string. Their conversion to a
  string does not throw, and the model of it is exact.
\<close>

fun primitive :: "jsval \<Rightarrow> bool" where
  "primitive JNull = True"
| "primitive (JBool b) = True"
| "primitive (JNum i) = safe_integer i"
| "primitive (JStr s) = True"
| "primitive (JArr xs) = False"
| "primitive (JObj ps) = False"

text \<open>The insert, update and delete operations of the three entities.\<close>

fun entity_write :: "call \<Rightarrow> bool" where
  "entity_write (FetchEntityColumns _) = False"
| "entity_write (SearchRecords _ _ _) = False"
| "entity_write (SortRecords _ _ _) = False"
| "entity_write (SelectAllRecords _) = False"
| "entity_write _ = True"

text \<open>
  The two ways a \<^verbatim>\<open>fetch\<close> can fail to deliver an ok response: the network fails, or the
  response has a status outside the ok range.
\<close>

fun is_failure :: "fetch_result \<Rightarrow> bool" where
  "is_failure (NetworkError e) = True"
| "is_failure (Response r) = (\<not> ok r)"

text \<open>Mock backends and requests for the concrete instances below.\<close>

definition answering :: "nat \<Rightarrow> payload \<Rightarrow> backend" where
  "answering code p = (\<lambda>req. Response \<lparr>status = code, content = p\<rparr>)"

definition unreachable :: "string \<Rightarrow> backend" where
  "unreachable m = (\<lambda>req. NetworkError m)"

definition get_request :: "string \<Rightarrow> request" where
  "get_request u = \<lparr>url = u, http_method = GET, headers = [], body = None\<rparr>"

definition json_request :: "verb \<Rightarrow> string \<Rightarrow> string \<Rightarrow> request" where
  "json_request m u b =
     \<lparr>url = u, http_method = m, headers = [(''Content-Type'', ''application/json'')], body = Some b\<rparr>"

section \<open>Properties\<close>

subsection \<open>The shape shared by the exported functions\<close>

lemmas op_defs =
  fetchEntityColumns_def searchRecords_def sortRecords_def selectAllRecords_def
  insertStudent_def deleteStudents_def updateStudent_def
  insertMentor_def updateMentor_def deleteMentors_def
  insertProject_def updateProject_def deleteProjects_def

lemmas run_defs =
  await_def fetch_def throw_def json_def ok_def fetch_url_def BASE_URL_def
  given_def template_def
  answering_def unreachable_def get_request_def json_request_def issued_def
  show_int_def show_nat.simps quote_def escape_char_def

lemma exchange_eval:
  "exchange srv req m tr =
     (case srv req of
        NetworkError e \<Rightarrow> (Inl (TypeError e), tr @ [Fetch req])
      | Response r \<Rightarrow>
          if ok r
          then (case content r of
                  Json v \<Rightarrow> (Inr v, tr @ [Fetch req, ReadBody])
                | Malformed s \<Rightarrow> (Inl (SyntaxError s), tr @ [Fetch req, ReadBody]))
          else (Inl (Error m), tr @ [Fetch req]))"
  by (simp add: exchange_def await_def fetch_def throw_def json_def
      split: fetch_result.split payload.split)

lemma requested_append: "requested (xs @ ys) = requested xs @ requested ys"
  by (induction xs rule: requested.induct) simp_all

lemma requested_exchange: "requested (snd (exchange srv req m tr)) = requested tr @ [req]"
  by (simp add: exchange_eval requested_append split: fetch_result.split payload.split)

text \<open>An expression that does not throw, and one that does.\<close>

lemma given_Inr: "given (Inr a) k = k a"
  by (rule ext) (simp add: given_def)

lemma given_Inl: "given (Inl e) k = throw e"
  by (rule ext) (simp add: given_def throw_def)

text \<open>The conversion of a primitive value does not throw.\<close>

lemma primitive_ToString: "primitive v \<Longrightarrow> \<exists>s. ToString v = Inr s"
  by (cases v) simp_all

text \<open>
  Each function, once the arguments in its URL have been converted, is one exchange: of the
  request it builds, with the message of its own \<^verbatim>\<open>throw\<close>.
\<close>

lemma fetchEntityColumns_exchange:
  "ToString entity = Inr s \<Longrightarrow>
   fetchEntityColumns srv entity tr =
     exchange srv \<lparr>url = BASE_URL @ ''/'' @ s @ ''/columns'', http_method = GET,
                    headers = [], body = None\<rparr>
       (''Failed to fetch '' @ s @ '' columns'') tr"
  by (simp add: fetchEntityColumns_def given_Inr template_def exchange_def fetch_url_def
      cong: if_cong)

lemma searchRecords_exchange:
  "ToString entity = Inr e \<Longrightarrow> ToString column = Inr c \<Longrightarrow> ToString val = Inr v \<Longrightarrow>
   searchRecords srv entity column val tr =
     exchange srv \<lparr>url = BASE_URL @ ''/search?entity='' @ e @ ''&column='' @ c @ ''&value='' @ v,
                    http_method = GET, headers = [], body = None\<rparr>
       ''Failed to search records'' tr"
  by (simp add: searchRecords_def given_Inr template_def exchange_def fetch_url_def)

lemma sortRecords_exchange:
  "ToString entity = Inr e \<Longrightarrow> ToString column = Inr c \<Longrightarrow> ToString order = Inr v \<Longrightarrow>
   sortRecords srv entity column order tr =
     exchange srv \<lparr>url = BASE_URL @ ''/sort?entity='' @ e @ ''&column='' @ c @ ''&order='' @ v,
                    http_method = GET, headers = [], body = None\<rparr>
       ''Failed to sort records'' tr"
  by (simp add: sortRecords_def given_Inr template_def exchange_def fetch_url_def)

lemma selectAllRecords_exchange:
  "ToString entity = Inr e \<Longrightarrow>
   selectAllRecords srv entity tr =
     exchange srv \<lparr>url = BASE_URL @ ''/all?entity='' @ e, http_method = GET,
                    headers = [], body = None\<rparr>
       ''Failed to fetch all records'' tr"
  by (simp add: selectAllRecords_def given_Inr template_def exchange_def fetch_url_def)

lemma updateStudent_exchange:
  "ToString studentId = Inr i \<Longrightarrow>
   updateStudent srv studentId student tr =
     exchange srv \<lparr>url = BASE_URL @ ''/students/'' @ i, http_method = PUT,
                    headers = [(''Content-Type'', ''application/json'')],
                    body = Some (JSON_stringify student)\<rparr>
       ''Failed to update student'' tr"
  by (simp add: updateStudent_def given_Inr template_def exchange_def)

lemma updateMentor_exchange:
  "ToString mentorId = Inr i \<Longrightarrow>
   updateMentor srv mentorId mentor tr =
     exchange srv \<lparr>url = BASE_URL @ ''/mentors/'' @ i, http_method = PUT,
                    headers = [(''Content-Type'', ''application/json'')],
                    body = Some (JSON_stringify mentor)\<rparr>
       ''Failed to update mentor'' tr"
  by (simp add: updateMentor_def given_Inr template_def exchange_def)

lemma updateProject_exchange:
  "ToString projectId = Inr i \<Longrightarrow>
   updateProject srv projectId project tr =
     exchange srv \<lparr>url = BASE_URL @ ''/projects/'' @ i, http_method = PUT,
                    headers = [(''Content-Type'', ''application/json'')],
                    body = Some (JSON_stringify project)\<rparr>
       ''Failed to update project'' tr"
  by (simp add: updateProject_def given_Inr template_def exchange_def)

text \<open>
  So is every call whose URL arguments are primitive values, and the request and the
  message do not depend on the backend or on the log.
\<close>

lemma exchangeI:
  assumes "fm = Inr m" and "\<And>srv tr. f srv tr = exchange srv req m tr"
  shows "\<exists>req m. fm = Inr m \<and> (\<forall>srv tr. f srv tr = exchange srv req m tr)"
  using assms by blast

lemma invoke_exchange:
  assumes "list_all primitive (url_arguments c)"
  shows "\<exists>req m. failure_message c = Inr m \<and> (\<forall>srv tr. invoke srv c tr = exchange srv req m tr)"
proof (cases c)
  case (FetchEntityColumns entity)
  with assms obtain s where s: "ToString entity = Inr s"
    using primitive_ToString [of entity] by auto
  show ?thesis
    unfolding FetchEntityColumns invoke.simps
    by (rule exchangeI [OF _ fetchEntityColumns_exchange [OF s]]) (simp add: s template_def)
next
  case (SearchRecords entity column val)
  with assms obtain e c v where s: "ToString entity = Inr e" "ToString column = Inr c" "ToString val = Inr v"
    using primitive_ToString [of entity] primitive_ToString [of column] primitive_ToString [of val]
    by auto
  show ?thesis
    unfolding SearchRecords invoke.simps
    by (rule exchangeI [OF _ searchRecords_exchange [OF s]]) simp
next
  case (SortRecords entity column order)
  with assms obtain e c v where s: "ToString entity = Inr e" "ToString column = Inr c" "ToString order = Inr v"
    using primitive_ToString [of entity] primitive_ToString [of column] primitive_ToString [of order]
    by auto
  show ?thesis
    unfolding SortRecords invoke.simps
    by (rule exchangeI [OF _ sortRecords_exchange [OF s]]) simp
next
  case (SelectAllRecords entity)
  with assms obtain s where s: "ToString entity = Inr s"
    using primitive_ToString [of entity] by auto
  show ?thesis
    unfolding SelectAllRecords invoke.simps
    by (rule exchangeI [OF _ selectAllRecords_exchange [OF s]]) simp
next
  case (InsertStudent student)
  show ?thesis
    unfolding InsertStudent invoke.simps
    by (rule exchangeI) (simp_all only: failure_message.simps insertStudent_def exchange_def)
next
  case (DeleteStudents studentIds)
  show ?thesis
    unfolding DeleteStudents invoke.simps
    by (rule exchangeI) (simp_all only: failure_message.simps deleteStudents_def exchange_def)
next
  case (UpdateStudent studentId student)
  with assms obtain s where s: "ToString studentId = Inr s"
    using primitive_ToString [of studentId] by auto
  show ?thesis
    unfolding UpdateStudent invoke.simps
    by (rule exchangeI [OF _ updateStudent_exchange [OF s]]) simp
next
  case (InsertMentor mentor)
  show ?thesis
    unfolding InsertMentor invoke.simps
    by (rule exchangeI) (simp_all only: failure_message.simps insertMentor_def exchange_def)
next
  case (UpdateMentor mentorId mentor)
  with assms obtain s where s: "ToString mentorId = Inr s"
    using primitive_ToString [of mentorId] by auto
  show ?thesis
    unfolding UpdateMentor invoke.simps
    by (rule exchangeI [OF _ updateMentor_exchange [OF s]]) simp
next
  case (DeleteMentors mentorIds)
  show ?thesis
    unfolding DeleteMentors invoke.simps
    by (rule exchangeI) (simp_all only: failure_message.simps deleteMentors_def exchange_def)
next
  case (InsertProject project)
  show ?thesis
    unfolding InsertProject invoke.simps
    by (rule exchangeI) (simp_all only: failure_message.simps insertProject_def exchange_def)
next
  case (UpdateProject projectId project)
  with assms obtain s where s: "ToString projectId = Inr s"
    using primitive_ToString [of projectId] by auto
  show ?thesis
    unfolding UpdateProject invoke.simps
    by (rule exchangeI [OF _ updateProject_exchange [OF s]]) simp
next
  case (DeleteProjects projectIds)
  show ?thesis
    unfolding DeleteProjects invoke.simps
    by (rule exchangeI) (simp_all only: failure_message.simps deleteProjects_def exchange_def)
qed


lemma insertStudent_exchange:
  "insertStudent srv student tr =
     exchange srv \<lparr>url = BASE_URL @ ''/students'', http_method = POST,
                    headers = [(''Content-Type'', ''application/json'')],
                    body = Some (JSON_stringify student)\<rparr>
       ''Failed to insert student'' tr"
  by (simp only: insertStudent_def exchange_def)

lemma deleteStudents_exchange:
  "deleteStudents srv studentIds tr =
     exchange srv \<lparr>url = BASE_URL @ ''/students'', http_method = DELETE,
                    headers = [(''Content-Type'', ''application/json'')],
                    body = Some (JSON_stringify studentIds)\<rparr>
       ''Failed to delete students'' tr"
  by (simp only: deleteStudents_def exchange_def)

lemma insertMentor_exchange:
  "insertMentor srv mentor tr =
     exchange srv \<lparr>url = BASE_URL @ ''/mentors'', http_method = POST,
                    headers = [(''Content-Type'', ''application/json'')],
                    body = Some (JSON_stringify mentor)\<rparr>
       ''Failed to insert mentor'' tr"
  by (simp only: insertMentor_def exchange_def)

lemma deleteMentors_exchange:
  "deleteMentors srv mentorIds tr =
     exchange srv \<lparr>url = BASE_URL @ ''/mentors'', http_method = DELETE,
                    headers = [(''Content-Type'', ''application/json'')],
                    body = Some (JSON_stringify mentorIds)\<rparr>
       ''Failed to delete mentors'' tr"
  by (simp only: deleteMentors_def exchange_def)

lemma insertProject_exchange:
  "insertProject srv project tr =
     exchange srv \<lparr>url = BASE_URL @ ''/projects'', http_method = POST,
                    headers = [(''Content-Type'', ''application/json'')],
                    body = Some (JSON_stringify project)\<rparr>
       ''Failed to insert project'' tr"
  by (simp only: insertProject_def exchange_def)

lemma deleteProjects_exchange:
  "deleteProjects srv projectIds tr =
     exchange srv \<lparr>url = BASE_URL @ ''/projects'', http_method = DELETE,
                    headers = [(''Content-Type'', ''application/json'')],
                    body = Some (JSON_stringify projectIds)\<rparr>
       ''Failed to delete projects'' tr"
  by (simp only: deleteProjects_def exchange_def)

lemma exchange_resolves:
  assumes "srv req = Response r" and "ok r" and "content r = Json v"
  shows "exchange srv req m tr = (Inr v, tr @ [Fetch req, ReadBody])"
  using assms by (simp add: exchange_eval)

lemma ToString_JStr: "ToString (JStr s) = Inr s"
  by simp

lemma ToString_7: "ToString (JNum 7) = Inr ''7''"
  by (simp add: show_int_def show_nat.simps)

lemmas string_exchanges =
  fetchEntityColumns_exchange [OF ToString_JStr]
  searchRecords_exchange [OF ToString_JStr ToString_JStr ToString_JStr]
  sortRecords_exchange [OF ToString_JStr ToString_JStr ToString_JStr]
  selectAllRecords_exchange [OF ToString_JStr]
  updateStudent_exchange [OF ToString_JStr]
  updateMentor_exchange [OF ToString_JStr]
  updateProject_exchange [OF ToString_JStr]
  insertStudent_exchange deleteStudents_exchange
  insertMentor_exchange deleteMentors_exchange
  insertProject_exchange deleteProjects_exchange

subsection \<open>Outside the primitive values\<close>

text \<open>An argument whose conversion throws: the call is rejected before any request.\<close>

lemma conversion_rejects_before_fetch:
  "fetchEntityColumns srv (JObj [(''toString'', JNum 5)]) tr = (Inl conversion_error, tr)
   \<and> updateStudent srv (JArr [JObj [(''toString'', JNull)]]) student tr = (Inl conversion_error, tr)"
  by (simp add: fetchEntityColumns_def updateStudent_def given_def template_def)

subsection \<open>A response that is not ok\<close>

text \<open>
  Claim C1. For every exported operation and every input whose URL arguments are primitive
  values, there is one request, fixed by the call alone, such that against every backend
  that answers it with a status outside 200 to 299 the call is rejected with the \<^verbatim>\<open>Error\<close>
  the operation constructs, so it does not resolve with a value, and the log gains the one
  \<^verbatim>\<open>fetch\<close> and no reading of the body. The outcome is the same for every such response,
  whatever its body.
\<close>

theorem non_ok_rejects:
  assumes "list_all primitive (url_arguments c)"
  shows "\<exists>req m. failure_message c = Inr m
           \<and> (\<forall>srv r tr. srv req = Response r \<and> \<not> ok r
                 \<longrightarrow> invoke srv c tr = (Inl (Error m), tr @ [Fetch req]))"
proof -
  obtain req m where m: "failure_message c = Inr m"
    and shape: "\<And>srv tr. invoke srv c tr = exchange srv req m tr"
    using invoke_exchange [OF assms] by blast
  have "\<forall>srv r tr. srv req = Response r \<and> \<not> ok r
          \<longrightarrow> invoke srv c tr = (Inl (Error m), tr @ [Fetch req])"
    by (simp add: shape exchange_eval)
  with m show ?thesis by blast
qed

text \<open>An instance: \<^verbatim>\<open>fetchEntityColumns("mentors")\<close> against a backend that answers 404.\<close>

theorem non_ok_rejects_witness:
  "list_all primitive (url_arguments (FetchEntityColumns (JStr ''mentors'')))
   \<and> \<not> ok \<lparr>status = 404, content = Json (JStr ''no such entity'')\<rparr>
   \<and> invoke (answering 404 (Json (JStr ''no such entity''))) (FetchEntityColumns (JStr ''mentors'')) []
     = (Inl (Error ''Failed to fetch mentors columns''),
        [Fetch (get_request ''http://localhost:8000/mentors/columns'')])"
proof -
  let ?c = "FetchEntityColumns (JStr ''mentors'')"
  let ?srv = "answering 404 (Json (JStr ''no such entity''))"
  let ?r = "\<lparr>status = 404, content = Json (JStr ''no such entity'')\<rparr>"
  have p: "list_all primitive (url_arguments ?c)"
    by simp
  have n: "\<not> ok ?r"
    by (simp add: ok_def)
  obtain req m where m: "failure_message ?c = Inr m"
    and h: "\<And>srv r tr. srv req = Response r \<and> \<not> ok r
              \<longrightarrow> invoke srv ?c tr = (Inl (Error m), tr @ [Fetch req])"
    using non_ok_rejects [OF p] by blast
  have out: "invoke ?srv ?c [] = (Inl (Error m), [Fetch req])"
    using h [of ?srv ?r "[]"] n by (simp add: answering_def)
  have "m = ''Failed to fetch mentors columns''"
    using m by (simp add: template_def)
  moreover have "requested (snd (invoke ?srv ?c [])) = [get_request ''http://localhost:8000/mentors/columns'']"
    by (simp add: fetchEntityColumns_def run_defs)
  with out have "req = get_request ''http://localhost:8000/mentors/columns''"
    by simp
  ultimately show ?thesis
    using p n out by simp
qed

subsection \<open>A response with status 200 and a JSON body\<close>

text \<open>
  Claim C2. For each of the insert, update and delete operations of students, mentors and
  projects, with a primitive identifier where the URL has one: there is one request, fixed
  by the call alone, such that against every backend that answers it with status 200 and a
  body that decodes to the JSON value \<open>B\<close>, the call resolves with exactly \<open>B\<close>.
\<close>

theorem write_resolves_with_body:
  assumes "entity_write c" and "list_all primitive (url_arguments c)"
  shows "\<exists>req. \<forall>srv r B tr.
           srv req = Response r \<and> status r = 200 \<and> content r = Json B
           \<longrightarrow> invoke srv c tr = (Inr B, tr @ [Fetch req, ReadBody])"
proof -
  obtain req m where shape: "\<And>srv tr. invoke srv c tr = exchange srv req m tr"
    using invoke_exchange [OF assms(2)] by blast
  have "\<forall>srv r B tr. srv req = Response r \<and> status r = 200 \<and> content r = Json B
          \<longrightarrow> invoke srv c tr = (Inr B, tr @ [Fetch req, ReadBody])"
    by (simp add: shape exchange_eval ok_def)
  then show ?thesis ..
qed


text \<open>Three instances: \<^verbatim>\<open>insertStudent({name: "Bo"})\<close>, \<^verbatim>\<open>deleteMentors([4,9])\<close> and
  \<^verbatim>\<open>updateProject(3, {title: "Compiler"})\<close>.\<close>

theorem write_resolves_with_body_witness:
  \<open>entity_write (InsertStudent (JObj [(''name'', JStr ''Bo'')]))
   \<and> invoke (answering 200 (Json (JObj [(''id'', JNum 1)])))
        (InsertStudent (JObj [(''name'', JStr ''Bo'')])) []
     = (Inr (JObj [(''id'', JNum 1)]),
        [Fetch (json_request POST ''http://localhost:8000/students'' ''{"name":"Bo"}''), ReadBody])
   \<and> entity_write (DeleteMentors (JArr [JNum 4, JNum 9]))
   \<and> invoke (answering 200 (Json (JObj [(''deleted'', JNum 2)])))
        (DeleteMentors (JArr [JNum 4, JNum 9])) []
     = (Inr (JObj [(''deleted'', JNum 2)]),
        [Fetch (json_request DELETE ''http://localhost:8000/mentors'' ''[4,9]''), ReadBody])
   \<and> entity_write (UpdateProject (JNum 3) (JObj [(''title'', JStr ''Compiler'')]))
   \<and> list_all primitive (url_arguments (UpdateProject (JNum 3) (JObj [(''title'', JStr ''Compiler'')])))
   \<and> invoke (answering 200 (Json (JObj [(''updated'', JBool True)])))
        (UpdateProject (JNum 3) (JObj [(''title'', JStr ''Compiler'')])) []
     = (Inr (JObj [(''updated'', JBool True)]),
        [Fetch (json_request PUT ''http://localhost:8000/projects/3'' ''{"title":"Compiler"}''),
         ReadBody])\<close>
proof -
  let ?c1 = "InsertStudent (JObj [(''name'', JStr ''Bo'')])"
  let ?b1 = "JObj [(''id'', JNum 1)]"
  let ?c2 = "DeleteMentors (JArr [JNum 4, JNum 9])"
  let ?b2 = "JObj [(''deleted'', JNum 2)]"
  let ?c3 = "UpdateProject (JNum 3) (JObj [(''title'', JStr ''Compiler'')])"
  let ?b3 = "JObj [(''updated'', JBool True)]"
  have w: "entity_write ?c1" "entity_write ?c2" "entity_write ?c3"
    by simp_all
  have p: "list_all primitive (url_arguments ?c1)" "list_all primitive (url_arguments ?c2)"
    "list_all primitive (url_arguments ?c3)"
    by (simp_all add: safe_integer_def)
  obtain req1 where h1: "\<And>srv r B tr. srv req1 = Response r \<and> status r = 200 \<and> content r = Json B
      \<longrightarrow> invoke srv ?c1 tr = (Inr B, tr @ [Fetch req1, ReadBody])"
    using write_resolves_with_body [OF w(1) p(1)] by blast
  obtain req2 where h2: "\<And>srv r B tr. srv req2 = Response r \<and> status r = 200 \<and> content r = Json B
      \<longrightarrow> invoke srv ?c2 tr = (Inr B, tr @ [Fetch req2, ReadBody])"
    using write_resolves_with_body [OF w(2) p(2)] by blast
  obtain req3 where h3: "\<And>srv r B tr. srv req3 = Response r \<and> status r = 200 \<and> content r = Json B
      \<longrightarrow> invoke srv ?c3 tr = (Inr B, tr @ [Fetch req3, ReadBody])"
    using write_resolves_with_body [OF w(3) p(3)] by blast
  have o1: "invoke (answering 200 (Json ?b1)) ?c1 [] = (Inr ?b1, [Fetch req1, ReadBody])"
    using h1 [of "answering 200 (Json ?b1)" "\<lparr>status = 200, content = Json ?b1\<rparr>" ?b1 "[]"]
    by (simp add: answering_def)
  have o2: "invoke (answering 200 (Json ?b2)) ?c2 [] = (Inr ?b2, [Fetch req2, ReadBody])"
    using h2 [of "answering 200 (Json ?b2)" "\<lparr>status = 200, content = Json ?b2\<rparr>" ?b2 "[]"]
    by (simp add: answering_def)
  have o3: "invoke (answering 200 (Json ?b3)) ?c3 [] = (Inr ?b3, [Fetch req3, ReadBody])"
    using h3 [of "answering 200 (Json ?b3)" "\<lparr>status = 200, content = Json ?b3\<rparr>" ?b3 "[]"]
    by (simp add: answering_def)
  have \<open>requested (snd (invoke (answering 200 (Json ?b1)) ?c1 []))
      = [json_request POST ''http://localhost:8000/students'' ''{"name":"Bo"}'']\<close>
    by (simp add: insertStudent_def run_defs)
  with o1 have r1: \<open>req1 = json_request POST ''http://localhost:8000/students'' ''{"name":"Bo"}''\<close>
    by simp
  have "requested (snd (invoke (answering 200 (Json ?b2)) ?c2 []))
      = [json_request DELETE ''http://localhost:8000/mentors'' ''[4,9]'']"
    by (simp add: deleteMentors_def run_defs)
  with o2 have r2: "req2 = json_request DELETE ''http://localhost:8000/mentors'' ''[4,9]''"
    by simp
  have \<open>requested (snd (invoke (answering 200 (Json ?b3)) ?c3 []))
      = [json_request PUT ''http://localhost:8000/projects/3'' ''{"title":"Compiler"}'']\<close>
    by (simp add: updateProject_def run_defs)
  with o3 have r3: \<open>req3 = json_request PUT ''http://localhost:8000/projects/3'' ''{"title":"Compiler"}''\<close>
    by simp
  show ?thesis
    using w p(3) o1 o2 o3 r1 r2 r3 by simp
qed

subsection \<open>What a failure looks like to the caller\<close>

text \<open>
  Claim C3, as the specification states it: every failure of an operation, a network-level
  exception as much as a non-ok status, reaches the caller as one kind of error whose
  message is a fixed string per operation, varying neither with the arguments nor with the
  kind of failure. The functions do otherwise. With the same arguments, \<^verbatim>\<open>searchRecords\<close>
  is rejected with the runtime's \<^verbatim>\<open>TypeError\<close> and its message when the network fails, and
  with its own \<^verbatim>\<open>Error\<close> when the status is 500; and against the same backend the message of
  \<^verbatim>\<open>fetchEntityColumns\<close> changes with its argument.
\<close>

theorem failures_differ_counterexample:
  "fst (searchRecords (unreachable ''Failed to fetch'')
         (JStr ''projects'') (JStr ''status'') (JStr ''active'') [])
     = Inl (TypeError ''Failed to fetch'')
   \<and> fst (searchRecords (answering 500 (Json JNull))
         (JStr ''projects'') (JStr ''status'') (JStr ''active'') [])
     = Inl (Error ''Failed to search records'')
   \<and> fst (fetchEntityColumns (answering 500 (Json JNull)) (JStr ''students'') [])
     = Inl (Error ''Failed to fetch students columns'')
   \<and> fst (fetchEntityColumns (answering 500 (Json JNull)) (JStr ''mentors'') [])
     = Inl (Error ''Failed to fetch mentors columns'')
   \<and> fst (searchRecords (unreachable ''Failed to fetch'')
         (JStr ''projects'') (JStr ''status'') (JStr ''active'') [])
     \<noteq> fst (searchRecords (answering 500 (Json JNull))
         (JStr ''projects'') (JStr ''status'') (JStr ''active'') [])
   \<and> fst (fetchEntityColumns (answering 500 (Json JNull)) (JStr ''students'') [])
     \<noteq> fst (fetchEntityColumns (answering 500 (Json JNull)) (JStr ''mentors'') [])"
  by (simp add: searchRecords_def fetchEntityColumns_def run_defs)

text \<open>
  Claim C3, amended. For every operation and every input whose URL arguments are primitive
  values, there are one request and one message, fixed by the call alone, such that against
  every backend that fails to answer the request with an ok response: a network-level
  exception of \<^verbatim>\<open>fetch\<close> reaches the caller unchanged, as the runtime's \<^verbatim>\<open>TypeError\<close> with the
  runtime's message; a non-ok status reaches the caller as an \<^verbatim>\<open>Error\<close> with the message of
  the operation (\<open>failure_message\<close>), whatever the response: a fixed string for every
  operation but \<^verbatim>\<open>fetchEntityColumns\<close>, whose message contains its entity argument.
\<close>

theorem failure_surfaces:
  assumes "list_all primitive (url_arguments c)"
  shows "\<exists>req m. failure_message c = Inr m
           \<and> (\<forall>srv tr. is_failure (srv req)
                 \<longrightarrow> invoke srv c tr
                     = (Inl (case srv req of
                               NetworkError e \<Rightarrow> TypeError e
                             | Response r \<Rightarrow> Error m),
                        tr @ [Fetch req]))"
proof -
  obtain req m where m: "failure_message c = Inr m"
    and shape: "\<And>srv tr. invoke srv c tr = exchange srv req m tr"
    using invoke_exchange [OF assms] by blast
  have "\<forall>srv tr. is_failure (srv req)
          \<longrightarrow> invoke srv c tr
              = (Inl (case srv req of NetworkError e \<Rightarrow> TypeError e | Response r \<Rightarrow> Error m),
                 tr @ [Fetch req])"
    by (simp add: shape exchange_eval split: fetch_result.split)
  with m show ?thesis by blast
qed

text \<open>Two instances: \<^verbatim>\<open>sortRecords("mentors", "name", "asc")\<close> with the network down, and
  against a backend that answers 503.\<close>

theorem failure_surfaces_witness:
  "list_all primitive (url_arguments (SortRecords (JStr ''mentors'') (JStr ''name'') (JStr ''asc'')))
   \<and> is_failure (unreachable ''Failed to fetch''
       (get_request ''http://localhost:8000/sort?entity=mentors&column=name&order=asc''))
   \<and> invoke (unreachable ''Failed to fetch'')
       (SortRecords (JStr ''mentors'') (JStr ''name'') (JStr ''asc'')) []
     = (Inl (TypeError ''Failed to fetch''),
        [Fetch (get_request ''http://localhost:8000/sort?entity=mentors&column=name&order=asc'')])
   \<and> is_failure (answering 503 (Malformed ''Unexpected token <'')
       (get_request ''http://localhost:8000/sort?entity=mentors&column=name&order=asc''))
   \<and> invoke (answering 503 (Malformed ''Unexpected token <''))
       (SortRecords (JStr ''mentors'') (JStr ''name'') (JStr ''asc'')) []
     = (Inl (Error ''Failed to sort records''),
        [Fetch (get_request ''http://localhost:8000/sort?entity=mentors&column=name&order=asc'')])"
proof -
  let ?c = "SortRecords (JStr ''mentors'') (JStr ''name'') (JStr ''asc'')"
  let ?down = "unreachable ''Failed to fetch''"
  let ?busy = "answering 503 (Malformed ''Unexpected token <'')"
  have p: "list_all primitive (url_arguments ?c)"
    by simp
  obtain req m where m: "failure_message ?c = Inr m"
    and h: "\<And>srv tr. is_failure (srv req)
              \<longrightarrow> invoke srv ?c tr
                  = (Inl (case srv req of NetworkError e \<Rightarrow> TypeError e | Response r \<Rightarrow> Error m),
                     tr @ [Fetch req])"
    using failure_surfaces [OF p] by blast
  have o1: "invoke ?down ?c [] = (Inl (TypeError ''Failed to fetch''), [Fetch req])"
    using h [of ?down "[]"] by (simp add: unreachable_def)
  have o2: "invoke ?busy ?c [] = (Inl (Error m), [Fetch req])"
    using h [of ?busy "[]"] by (simp add: answering_def ok_def)
  have "requested (snd (invoke ?down ?c []))
      = [get_request ''http://localhost:8000/sort?entity=mentors&column=name&order=asc'']"
    by (simp add: sortRecords_def run_defs)
  with o1 have r: "req = get_request ''http://localhost:8000/sort?entity=mentors&column=name&order=asc''"
    by simp
  from m have "m = ''Failed to sort records''"
    by simp
  with p o1 o2 r show ?thesis
    by (simp add: unreachable_def answering_def ok_def)
qed


subsection \<open>The request each function builds\<close>

text \<open>
  Claim C4. For every operation and all argument strings (entity, column, value, order,
  identifier), the URL handed to \<^verbatim>\<open>fetch\<close> is the concatenation of the base URL, the literal
  path and query fragments of the function, and the argument strings as they are: no
  character of an argument is percent-encoded or escaped.
\<close>

theorem urls_by_concatenation:
  "map url (issued srv (FetchEntityColumns (JStr entity)))
     = [BASE_URL @ ''/'' @ entity @ ''/columns'']
   \<and> map url (issued srv (SearchRecords (JStr entity) (JStr column) (JStr val)))
     = [BASE_URL @ ''/search?entity='' @ entity @ ''&column='' @ column @ ''&value='' @ val]
   \<and> map url (issued srv (SortRecords (JStr entity) (JStr column) (JStr order)))
     = [BASE_URL @ ''/sort?entity='' @ entity @ ''&column='' @ column @ ''&order='' @ order]
   \<and> map url (issued srv (SelectAllRecords (JStr entity)))
     = [BASE_URL @ ''/all?entity='' @ entity]
   \<and> map url (issued srv (InsertStudent student)) = [BASE_URL @ ''/students'']
   \<and> map url (issued srv (DeleteStudents studentIds)) = [BASE_URL @ ''/students'']
   \<and> map url (issued srv (UpdateStudent (JStr studentId) student))
     = [BASE_URL @ ''/students/'' @ studentId]
   \<and> map url (issued srv (InsertMentor mentor)) = [BASE_URL @ ''/mentors'']
   \<and> map url (issued srv (UpdateMentor (JStr mentorId) mentor))
     = [BASE_URL @ ''/mentors/'' @ mentorId]
   \<and> map url (issued srv (DeleteMentors mentorIds)) = [BASE_URL @ ''/mentors'']
   \<and> map url (issued srv (InsertProject project)) = [BASE_URL @ ''/projects'']
   \<and> map url (issued srv (UpdateProject (JStr projectId) project))
     = [BASE_URL @ ''/projects/'' @ projectId]
   \<and> map url (issued srv (DeleteProjects projectIds)) = [BASE_URL @ ''/projects'']"
  by (simp add: issued_def string_exchanges requested_exchange)

text \<open>An instance with reserved characters in the search value: they arrive in the URL
  as they were given.\<close>

theorem urls_by_concatenation_witness:
  "map url (issued (answering 200 (Json (JArr [])))
       (SearchRecords (JStr ''students'') (JStr ''name'') (JStr ''a&b=c d#e'')))
     = [''http://localhost:8000/search?entity=students&column=name&value=a&b=c d#e'']"
  using urls_by_concatenation
    [where srv = "answering 200 (Json (JArr []))" and entity = "''students''"
       and column = "''name''" and val = "''a&b=c d#e''"]
  by (simp add: BASE_URL_def)

text \<open>
  Claim C5. Every invocation of every exported operation, with primitive values for its URL
  arguments, makes exactly one network request: there is one request, fixed by the call
  alone, that the call adds to the log whatever the backend answers and whatever the log
  held before, and it adds no other; there is no retry and no further request on failure.
\<close>

theorem one_request_per_call:
  assumes "list_all primitive (url_arguments c)"
  shows "\<exists>req. \<forall>srv tr. requested (snd (invoke srv c tr)) = requested tr @ [req]"
proof -
  obtain req m where "\<And>srv tr. invoke srv c tr = exchange srv req m tr"
    using invoke_exchange [OF assms] by blast
  then have "\<forall>srv tr. requested (snd (invoke srv c tr)) = requested tr @ [req]"
    by (simp add: requested_exchange)
  then show ?thesis ..
qed

text \<open>Two instances of \<^verbatim>\<open>selectAllRecords("students")\<close>: with the network down, and
  against a backend that answers 500, after an earlier call.\<close>

theorem one_request_per_call_witness:
  "list_all primitive (url_arguments (SelectAllRecords (JStr ''students'')))
   \<and> requested (snd (invoke (unreachable ''Failed to fetch'') (SelectAllRecords (JStr ''students'')) []))
     = [get_request ''http://localhost:8000/all?entity=students'']
   \<and> requested (snd (invoke (answering 500 (Malformed ''Internal Server Error''))
         (SelectAllRecords (JStr ''students''))
         [Fetch (get_request ''http://localhost:8000/mentors/columns''), ReadBody]))
     = [get_request ''http://localhost:8000/mentors/columns'',
        get_request ''http://localhost:8000/all?entity=students'']"
proof -
  let ?c = "SelectAllRecords (JStr ''students'')"
  have p: "list_all primitive (url_arguments ?c)"
    by simp
  obtain req where h: "\<And>srv tr. requested (snd (invoke srv ?c tr)) = requested tr @ [req]"
    using one_request_per_call [OF p] by blast
  have "requested (snd (invoke (unreachable ''Failed to fetch'') ?c []))
      = [get_request ''http://localhost:8000/all?entity=students'']"
    by (simp add: selectAllRecords_def run_defs)
  with h [of "unreachable ''Failed to fetch''" "[]"]
  have r: "req = get_request ''http://localhost:8000/all?entity=students''"
    by simp
  show ?thesis
    using p h [of "unreachable ''Failed to fetch''" "[]"]
      h [of "answering 500 (Malformed ''Internal Server Error'')"
            "[Fetch (get_request ''http://localhost:8000/mentors/columns''), ReadBody]"]
    by (simp add: r)
qed

text \<open>
  Claim C6. \<^verbatim>\<open>fetchEntityColumns("students")\<close> makes exactly one request, a GET of
  \<^verbatim>\<open>/students/columns\<close> under the base URL, and when the response to it is ok and its body
  decodes to a JSON value, the call resolves with that value.
\<close>

theorem fetchEntityColumns_students:
  "requested (snd (fetchEntityColumns srv (JStr ''students'') tr))
     = requested tr @
       [\<lparr>url = ''http://localhost:8000/students/columns'', http_method = GET,
         headers = [], body = None\<rparr>]
   \<and> (srv \<lparr>url = ''http://localhost:8000/students/columns'', http_method = GET,
            headers = [], body = None\<rparr> = Response r
        \<and> ok r \<and> content r = Json v
      \<longrightarrow> fst (fetchEntityColumns srv (JStr ''students'') tr) = Inr v)"
  by (simp add: fetchEntityColumns_exchange [OF ToString_JStr] BASE_URL_def
      requested_exchange exchange_resolves)

theorem fetchEntityColumns_students_witness:
  "answering 200 (Json (JArr [JStr ''id'', JStr ''name'']))
       \<lparr>url = ''http://localhost:8000/students/columns'', http_method = GET,
         headers = [], body = None\<rparr>
     = Response \<lparr>status = 200, content = Json (JArr [JStr ''id'', JStr ''name''])\<rparr>
   \<and> ok \<lparr>status = 200, content = Json (JArr [JStr ''id'', JStr ''name''])\<rparr>
   \<and> fst (fetchEntityColumns (answering 200 (Json (JArr [JStr ''id'', JStr ''name''])))
          (JStr ''students'') [])
     = Inr (JArr [JStr ''id'', JStr ''name''])"
  using fetchEntityColumns_students
    [of "answering 200 (Json (JArr [JStr ''id'', JStr ''name'']))" "[]"
        "\<lparr>status = 200, content = Json (JArr [JStr ''id'', JStr ''name''])\<rparr>"
        "JArr [JStr ''id'', JStr ''name'']"]
  by (simp add: answering_def ok_def)

text \<open>
  Claim C7. \<^verbatim>\<open>searchRecords("projects", "status", "active")\<close> makes a GET request whose
  URL is the base URL, \<^verbatim>\<open>/search?\<close> and the query string
  \<^verbatim>\<open>entity=projects&column=status&value=active\<close>, the three parameters in that order.
\<close>

theorem searchRecords_query:
  "requested (snd (searchRecords srv (JStr ''projects'') (JStr ''status'') (JStr ''active'') tr))
     = requested tr @
       [\<lparr>url = ''http://localhost:8000/search?'' @ ''entity=projects&column=status&value=active'',
         http_method = GET, headers = [], body = None\<rparr>]"
  by (simp add: searchRecords_exchange [OF ToString_JStr ToString_JStr ToString_JStr]
      BASE_URL_def requested_exchange)

text \<open>
  Claim C8. \<^verbatim>\<open>deleteStudents([1,2,3])\<close> makes a DELETE request to \<^verbatim>\<open>/students\<close> under the
  base URL, with the header \<^verbatim>\<open>Content-Type: application/json\<close> and the body \<^verbatim>\<open>[1,2,3]\<close>, the
  JSON serialization of the list.
\<close>

theorem deleteStudents_request:
  "requested (snd (deleteStudents srv (JArr [JNum 1, JNum 2, JNum 3]) tr))
     = requested tr @
       [\<lparr>url = ''http://localhost:8000/students'', http_method = DELETE,
         headers = [(''Content-Type'', ''application/json'')],
         body = Some ''[1,2,3]''\<rparr>]"
  by (simp add: deleteStudents_exchange BASE_URL_def requested_exchange
      show_int_def show_nat.simps)

text \<open>
  Claim C9. \<^verbatim>\<open>updateMentor(7, {name: "Alice"})\<close> makes a PUT request to \<^verbatim>\<open>/mentors/7\<close> under
  the base URL with the JSON body \<^verbatim>\<open>{"name":"Alice"}\<close>, and when the backend answers it with
  status 200 and the body \<^verbatim>\<open>{"id":7,"name":"Alice"}\<close>, the call resolves with exactly that
  object.
\<close>

theorem updateMentor_alice:
  \<open>requested (snd (updateMentor srv (JNum 7) (JObj [(''name'', JStr ''Alice'')]) tr))
     = requested tr @
       [\<lparr>url = ''http://localhost:8000/mentors/7'', http_method = PUT,
         headers = [(''Content-Type'', ''application/json'')],
         body = Some ''{"name":"Alice"}''\<rparr>]
   \<and> (srv \<lparr>url = ''http://localhost:8000/mentors/7'', http_method = PUT,
            headers = [(''Content-Type'', ''application/json'')],
            body = Some ''{"name":"Alice"}''\<rparr>
        = Response \<lparr>status = 200,
            content = Json (JObj [(''id'', JNum 7), (''name'', JStr ''Alice'')])\<rparr>
      \<longrightarrow> fst (updateMentor srv (JNum 7) (JObj [(''name'', JStr ''Alice'')]) tr)
          = Inr (JObj [(''id'', JNum 7), (''name'', JStr ''Alice'')]))\<close>
proof -
  have "ok \<lparr>status = 200, content = Json (JObj [(''id'', JNum 7), (''name'', JStr ''Alice'')])\<rparr>"
    by (simp add: ok_def)
  then show ?thesis
    by (simp add: updateMentor_exchange [OF ToString_7] BASE_URL_def requested_exchange
        exchange_resolves quote_def escape_char_def)
qed

theorem updateMentor_alice_witness:
  \<open>answering 200 (Json (JObj [(''id'', JNum 7), (''name'', JStr ''Alice'')]))
       \<lparr>url = ''http://localhost:8000/mentors/7'', http_method = PUT,
         headers = [(''Content-Type'', ''application/json'')],
         body = Some ''{"name":"Alice"}''\<rparr>
     = Response \<lparr>status = 200,
         content = Json (JObj [(''id'', JNum 7), (''name'', JStr ''Alice'')])\<rparr>
   \<and> fst (updateMentor (answering 200 (Json (JObj [(''id'', JNum 7), (''name'', JStr ''Alice'')])))
         (JNum 7) (JObj [(''name'', JStr ''Alice'')]) [])
     = Inr (JObj [(''id'', JNum 7), (''name'', JStr ''Alice'')])\<close>
  using updateMentor_alice
    [of "answering 200 (Json (JObj [(''id'', JNum 7), (''name'', JStr ''Alice'')]))" "[]"]
  by (simp add: answering_def)

subsection \<open>An ok response whose body is not JSON\<close>

text \<open>
  Claim C10. For every operation and every input whose URL arguments are primitive values,
  an ok status alone does not make the call resolve. There is one request, fixed by the
  call alone, such that against every backend: the call resolves with a value only when the
  response to the request is ok and its body decodes to that JSON value; and when the
  response is ok but its body is not valid JSON, the call is rejected with the decoder's
  \<^verbatim>\<open>SyntaxError\<close>, after the body has been read.
\<close>

theorem ok_needs_json:
  assumes "list_all primitive (url_arguments c)"
  shows "\<exists>req. \<forall>srv tr.
           (\<forall>v. fst (invoke srv c tr) = Inr v
                 \<longrightarrow> (\<exists>r. srv req = Response r \<and> ok r \<and> content r = Json v))
         \<and> (\<forall>r m. srv req = Response r \<and> ok r \<and> content r = Malformed m
                 \<longrightarrow> invoke srv c tr = (Inl (SyntaxError m), tr @ [Fetch req, ReadBody]))"
proof -
  obtain req m where shape: "\<And>srv tr. invoke srv c tr = exchange srv req m tr"
    using invoke_exchange [OF assms] by blast
  have "\<forall>srv tr.
           (\<forall>v. fst (invoke srv c tr) = Inr v
                 \<longrightarrow> (\<exists>r. srv req = Response r \<and> ok r \<and> content r = Json v))
         \<and> (\<forall>r m. srv req = Response r \<and> ok r \<and> content r = Malformed m
                 \<longrightarrow> invoke srv c tr = (Inl (SyntaxError m), tr @ [Fetch req, ReadBody]))"
    by (simp add: shape exchange_eval split: fetch_result.split payload.split)
  then show ?thesis ..
qed

text \<open>Two instances of \<^verbatim>\<open>selectAllRecords("projects")\<close> against backends that answer 200:
  one with a body that is not JSON, one with the JSON body \<^verbatim>\<open>[1]\<close>.\<close>

theorem ok_needs_json_witness:
  "list_all primitive (url_arguments (SelectAllRecords (JStr ''projects'')))
   \<and> ok \<lparr>status = 200, content = Malformed ''Unexpected token < in JSON''\<rparr>
   \<and> invoke (answering 200 (Malformed ''Unexpected token < in JSON''))
       (SelectAllRecords (JStr ''projects'')) []
     = (Inl (SyntaxError ''Unexpected token < in JSON''),
        [Fetch (get_request ''http://localhost:8000/all?entity=projects''), ReadBody])
   \<and> fst (invoke (answering 200 (Json (JArr [JNum 1]))) (SelectAllRecords (JStr ''projects'')) [])
     = Inr (JArr [JNum 1])
   \<and> (\<exists>r. answering 200 (Json (JArr [JNum 1])) (get_request ''http://localhost:8000/all?entity=projects'')
            = Response r \<and> ok r \<and> content r = Json (JArr [JNum 1]))"
proof -
  let ?c = "SelectAllRecords (JStr ''projects'')"
  let ?bad = "answering 200 (Malformed ''Unexpected token < in JSON'')"
  let ?good = "answering 200 (Json (JArr [JNum 1]))"
  have p: "list_all primitive (url_arguments ?c)"
    by simp
  have k: "ok \<lparr>status = 200, content = Malformed ''Unexpected token < in JSON''\<rparr>"
    by (simp add: ok_def)
  obtain req where
    only_if: "\<And>srv tr v. fst (invoke srv ?c tr) = Inr v
        \<longrightarrow> (\<exists>r. srv req = Response r \<and> ok r \<and> content r = Json v)"
    and malformed: "\<And>srv tr r m. srv req = Response r \<and> ok r \<and> content r = Malformed m
        \<longrightarrow> invoke srv ?c tr = (Inl (SyntaxError m), tr @ [Fetch req, ReadBody])"
    using ok_needs_json [OF p] by blast
  have o1: "invoke ?bad ?c [] = (Inl (SyntaxError ''Unexpected token < in JSON''), [Fetch req, ReadBody])"
    using malformed [of ?bad "\<lparr>status = 200, content = Malformed ''Unexpected token < in JSON''\<rparr>"
        "''Unexpected token < in JSON''" "[]"] k
    by (simp add: answering_def)
  have "requested (snd (invoke ?bad ?c [])) = [get_request ''http://localhost:8000/all?entity=projects'']"
    by (simp add: selectAllRecords_def run_defs)
  with o1 have r: "req = get_request ''http://localhost:8000/all?entity=projects''"
    by simp
  have res: "fst (invoke ?good ?c []) = Inr (JArr [JNum 1])"
    by (simp add: selectAllRecords_def run_defs)
  with only_if [of ?good "[]" "JArr [JNum 1]"]
  have "\<exists>r. ?good req = Response r \<and> ok r \<and> content r = Json (JArr [JNum 1])"
    by simp
  with p k o1 r res show ?thesis
    by simp
qed

end
